theory Spec2Isabelle
  imports Main "HOL-Library.Word"
begin

section \<open>The wallet-authenticated multisig list (ListUserMultisigs.tsx)\<close>

text \<open>
  A shallow embedding of the React component \<^verbatim>\<open>ListUserMultisigs\<close>: its four state
  cells, the three asynchronous callbacks \<^verbatim>\<open>getSignature\<close>, \<^verbatim>\<open>fetchMultisigs\<close> and
  \<^verbatim>\<open>connectWallet\<close>, the layout effect that subscribes to \<^verbatim>\<open>keplr_keystorechange\<close>,
  and the part of the returned markup that depends on the state.

  Conventions.
  \<^item> A JavaScript string is a \<^typ>\<open>string\<close> holding its UTF-8 encoding, so that
    \<^verbatim>\<open>Buffer.from(s)\<close> is the list of its bytes. Template literals and concatenation
    are \<open>@\<close>.
  \<^item> A \<^verbatim>\<open>throw\<close> (or a rejected promise) is \<open>Inl e\<close>; every \<^verbatim>\<open>await\<close> that
    can reject is a \<^theory_text>\<open>case\<close> on the outcome of the call.
  \<^item> What the component does to the outside world, and every call of a state setter,
    is appended to a trace of events, in program order.
  \<^item> The collaborators (node client, signing agent, backend) are fields of an
    environment record: functions from the arguments of the call to its outcome. So is
    \<^verbatim>\<open>getConnectError\<close> (lib/errorHelpers), which is not among the sources;
    \<^verbatim>\<open>toastError\<close> and \<^verbatim>\<open>console.error\<close> are events of the trace. An external call
    that never settles is not modelled: every theorem is about invocations that run to
    their end.
\<close>

subsection \<open>Data\<close>

text \<open>\<^verbatim>\<open>Omit<WalletInfo, "type">\<close>: the address and the base64 public key.\<close>

record WalletInfo =
  address :: string
  pubKey :: string

text \<open>
  \<^verbatim>\<open>MultisigFromQuery\<close> (lib/graphqlHelpers): the component reads the two fields
  \<^verbatim>\<open>address\<close> and \<^verbatim>\<open>pubkeyJSON\<close> only.
\<close>

record MultisigFromQuery =
  multisig_address :: string
  pubkeyJSON :: string

record FetchedMultisigs =
  created :: "MultisigFromQuery list"
  belonged :: "MultisigFromQuery list"

text \<open>The fields of \<^verbatim>\<open>chain\<close> (ChainsContext) that the component reads.\<close>

record ChainInfo =
  chainId :: string
  chainDisplayName :: string
  nodeAddress :: string
  registryName :: string

text \<open>The account the node client returns; only its address is read.\<close>

record Account =
  account_address :: string

text \<open>What \<^verbatim>\<open>window.keplr.getKey\<close> resolves to; \<^verbatim>\<open>pubKey\<close> is a \<^verbatim>\<open>Uint8Array\<close>.\<close>

record Key =
  bech32Address :: string
  key_pubKey :: "8 word list"

text \<open>The amino message and sign doc handed to \<^verbatim>\<open>window.keplr.signAmino\<close>.\<close>

record AminoMsg =
  msg_type :: string
  signer :: string
  data :: string

record StdSignDoc =
  chain_id :: string
  account_number :: string
  sequence :: string
  fee_gas :: string
  fee_amount :: "string list"
  msgs :: "AminoMsg list"
  memo :: string

text \<open>
  Values that are thrown. \<open>AccountNotFound a\<close> is the
  \<^verbatim>\<open>new Error(`Account not found on chain for ${address}`)\<close> of \<^verbatim>\<open>getSignature\<close>;
  \<open>NetworkError\<close> is what \<^verbatim>\<open>requestJson\<close> throws; \<open>NodeError\<close> and \<open>AgentError\<close> are
  errors of the node client and of the signing agent, with their message;
  \<open>SyntaxError\<close> is \<^verbatim>\<open>JSON.parse\<close>'s; \<open>ThrownValue\<close> is a thrown value that is not
  an \<^verbatim>\<open>Error\<close> object.
\<close>

datatype error =
    AccountNotFound string
  | NetworkError
  | NodeError string
  | AgentError string
  | SyntaxError
  | ThrownValue string

fun instanceof_Error :: "error \<Rightarrow> bool" where
  "instanceof_Error (ThrownValue _) = False"
| "instanceof_Error _ = True"

text \<open>The outcome of an HTTP exchange with the backend, before \<^verbatim>\<open>requestJson\<close>.\<close>

datatype 'a http_result = TransportFailure | HttpResponse nat 'a

text \<open>
  Modelled from the spec: \<^verbatim>\<open>requestJson\<close> (lib/request) is not among the sources. The
  spec's words for the nonce request are: ``Fails with NetworkError on transport failure
  or non-2xx response''. A 2xx response yields its decoded JSON body.
\<close>

definition requestJson :: "'a http_result \<Rightarrow> error + 'a" where
  "requestJson r =
     (case r of
        TransportFailure \<Rightarrow> Inl NetworkError
      | HttpResponse status body \<Rightarrow>
          if 200 \<le> status \<and> status < 300 then Inr body else Inl NetworkError)"

text \<open>
  The environment. \<open>nonce_endpoint\<close> and \<open>list_endpoint\<close> are the backend behind the two
  URLs that \<^verbatim>\<open>requestJson\<close> is called with; the body of the list request is
  \<^verbatim>\<open>{ signature, chain }\<close>.

  Modelled from the spec: \<^verbatim>\<open>DbNonce\<close> (types/db) is not among the sources; the spec
  gives the nonce endpoint's answer as \<^verbatim>\<open>{ nonce: string }\<close>.
\<close>

record env =
  stargate_connect :: "string \<Rightarrow> error + unit"
  client_getAccount :: "string \<Rightarrow> string \<Rightarrow> error + Account option"
  nonce_endpoint :: "string \<Rightarrow> string http_result"
  list_endpoint :: "string \<Rightarrow> string \<times> ChainInfo \<Rightarrow> FetchedMultisigs http_result"
  keplr_enable :: "string \<Rightarrow> error + unit"
  keplr_getKey :: "string \<Rightarrow> error + Key"
  keplr_signAmino :: "string \<Rightarrow> string \<Rightarrow> StdSignDoc \<Rightarrow> error + string"
  getConnectError :: "error \<Rightarrow> string"

datatype event =
    StargateConnect string
  | ClientGetAccount string
  | RequestJson string "(string \<times> ChainInfo) option"
  | KeplrEnable string
  | KeplrSetDefaultOptions
  | KeplrGetKey string
  | KeplrSignAmino string string StdSignDoc
  | ConsoleError string error
  | ToastError string "error option"
  | SetLoading bool
  | SetWalletInfo WalletInfo
  | SetShowBelonged bool
  | SetMultisigs FetchedMultisigs

text \<open>The four \<^verbatim>\<open>useState\<close> cells, and the component with its trace.\<close>

record state =
  loading :: bool
  walletInfo :: "WalletInfo option"
  showBelonged :: bool
  multisigs :: "FetchedMultisigs option"

record world = state +
  trace :: "event list"

definition initial :: world where
  "initial = \<lparr>loading = False, walletInfo = None, showBelonged = False,
              multisigs = None, trace = []\<rparr>"

definition emit :: "event \<Rightarrow> world \<Rightarrow> world" where
  "emit e w = w\<lparr>trace := trace w @ [e]\<rparr>"

definition setLoading :: "bool \<Rightarrow> world \<Rightarrow> world" where
  "setLoading b w = emit (SetLoading b) (w\<lparr>loading := b\<rparr>)"

definition setWalletInfo :: "WalletInfo \<Rightarrow> world \<Rightarrow> world" where
  "setWalletInfo i w = emit (SetWalletInfo i) (w\<lparr>walletInfo := Some i\<rparr>)"

definition setShowBelonged :: "bool \<Rightarrow> world \<Rightarrow> world" where
  "setShowBelonged b w = emit (SetShowBelonged b) (w\<lparr>showBelonged := b\<rparr>)"

definition setMultisigs :: "FetchedMultisigs \<Rightarrow> world \<Rightarrow> world" where
  "setMultisigs m w = emit (SetMultisigs m) (w\<lparr>multisigs := Some m\<rparr>)"

subsection \<open>The challenge encoding (lines 57 to 67)\<close>

text \<open>
  \<^verbatim>\<open>JSON.stringify\<close> of an object whose three properties are strings: the properties in
  insertion order, no white space, each string quoted by QuoteJSONString (ECMA-262):
  the quote and the backslash are escaped, the control characters below U+0020 become
  \<^verbatim>\<open>\b \t \n \f \r\<close> or \<^verbatim>\<open>\u00xx\<close> in lower-case hexadecimal, everything else is copied.
  On UTF-8 text this works byte by byte, since every byte of a multi-byte character
  is at least 0x80. (A string with an unpaired surrogate has no UTF-8 encoding and is
  outside the model.)
\<close>

definition hexdigit :: "nat \<Rightarrow> char" where
  "hexdigit n = ''0123456789abcdef'' ! (n mod 16)"

definition quoteJSONChar :: "char \<Rightarrow> string" where
  "quoteJSONChar c =
     (let n = (of_char c :: nat) in
      if n = 0x22 then [CHR 0x5C, CHR 0x22]
      else if n = 0x5C then [CHR 0x5C, CHR 0x5C]
      else if n = 0x08 then [CHR 0x5C, CHR ''b'']
      else if n = 0x09 then [CHR 0x5C, CHR ''t'']
      else if n = 0x0A then [CHR 0x5C, CHR ''n'']
      else if n = 0x0C then [CHR 0x5C, CHR ''f'']
      else if n = 0x0D then [CHR 0x5C, CHR ''r'']
      else if n < 0x20 then [CHR 0x5C, CHR ''u'', CHR ''0'', CHR ''0'',
                             hexdigit (n div 16), hexdigit n]
      else [c])"

definition quoteJSONString :: "string \<Rightarrow> string" where
  "quoteJSONString s = [CHR 0x22] @ concat (map quoteJSONChar s) @ [CHR 0x22]"

definition JSON_stringify :: "(string \<times> string) list \<Rightarrow> string" where
  "JSON_stringify props =
     ''{'' @ concat (map (\<lambda>(i, (k, v)).
                (if i = 0 then [] else '','') @ quoteJSONString k @ '':'' @ quoteJSONString v)
              (enumerate 0 props)) @ ''}''"

text \<open>\<^verbatim>\<open>new Uint8Array(Buffer.from(s))\<close>: the UTF-8 bytes of the string.\<close>

definition Buffer_from :: "string \<Rightarrow> 8 word list" where
  "Buffer_from s = map (\<lambda>c. word_of_nat (of_char c)) s"

text \<open>\<^verbatim>\<open>toBase64\<close> (@cosmjs/encoding): RFC 4648 base64 with padding.\<close>

definition base64char :: "nat \<Rightarrow> char" where
  "base64char n =
     ''ABCDEFGHIJKLMNOPQRSTUVWXYZabcdefghijklmnopqrstuvwxyz0123456789+/'' ! (n mod 64)"

fun toBase64 :: "8 word list \<Rightarrow> string" where
  "toBase64 [] = []"
| "toBase64 [a] =
     (let n = unat a * 65536
      in [base64char (n div 262144), base64char (n div 4096), CHR ''='', CHR ''=''])"
| "toBase64 [a, b] =
     (let n = unat a * 65536 + unat b * 256
      in [base64char (n div 262144), base64char (n div 4096), base64char (n div 64),
          CHR ''=''])"
| "toBase64 (a # b # c # rest) =
     (let n = unat a * 65536 + unat b * 256 + unat c
      in [base64char (n div 262144), base64char (n div 4096), base64char (n div 64),
          base64char n] @ toBase64 rest)"

text \<open>The object literal of lines 60 to 64 and its encoding, lines 57 to 67.\<close>

definition challenge :: "string \<Rightarrow> string \<Rightarrow> (string \<times> string) list" where
  "challenge displayName nonce =
     [(''title'', ''Keplr Login to '' @ displayName),
      (''description'', ''Sign this no fee transaction to login with your Keplr wallet''),
      (''nonce'', nonce)]"

definition challengeBytes :: "string \<Rightarrow> string \<Rightarrow> 8 word list" where
  "challengeBytes displayName nonce = Buffer_from (JSON_stringify (challenge displayName nonce))"

definition challengeData :: "string \<Rightarrow> string \<Rightarrow> string" where
  "challengeData displayName nonce = toBase64 (challengeBytes displayName nonce)"

text \<open>The sign doc of lines 47 to 72.\<close>

definition signDoc :: "ChainInfo \<Rightarrow> string \<Rightarrow> string \<Rightarrow> StdSignDoc" where
  "signDoc chain signerAddress nonce =
     \<lparr>chain_id = '''', account_number = ''0'', sequence = ''0'', fee_gas = ''0'',
      fee_amount = [],
      msgs = [\<lparr>msg_type = ''sign/MsgSignData'', signer = signerAddress,
               data = challengeData (chainDisplayName chain) nonce\<rparr>],
      memo = ''''\<rparr>"

subsection \<open>getSignature (lines 34 to 77)\<close>

definition getSignature :: "env \<Rightarrow> ChainInfo \<Rightarrow> string \<Rightarrow> world \<Rightarrow> (error + string) \<times> world" where
  "getSignature env chain addr w0 =
     (let w1 = emit (StargateConnect (nodeAddress chain)) w0 in
      case stargate_connect env (nodeAddress chain) of
        Inl e \<Rightarrow> (Inl e, w1)
      | Inr client \<Rightarrow>
     (let w2 = emit (ClientGetAccount addr) w1 in
      case client_getAccount env (nodeAddress chain) addr of
        Inl e \<Rightarrow> (Inl e, w2)
      | Inr None \<Rightarrow> (Inl (AccountNotFound addr), w2)
      | Inr (Some accountOnChain) \<Rightarrow>
     (let url = ''/api/chain/'' @ chainId chain @ ''/nonce/'' @ account_address accountOnChain;
          w3 = emit (RequestJson url None) w2 in
      case requestJson (nonce_endpoint env url) of
        Inl e \<Rightarrow> (Inl e, w3)
      | Inr nonce \<Rightarrow>
     (let doc = signDoc chain (account_address accountOnChain) nonce;
          w4 = emit (KeplrSignAmino (chainId chain) (account_address accountOnChain) doc) w3 in
      case keplr_signAmino env (chainId chain) (account_address accountOnChain) doc of
        Inl e \<Rightarrow> (Inl e, w4)
      | Inr signature \<Rightarrow> (Inr signature, w4)))))"

subsection \<open>fetchMultisigs (lines 79 to 101)\<close>

text \<open>The body of the \<^verbatim>\<open>try\<close> block, the \<^verbatim>\<open>catch\<close> handler, and the callback.\<close>

definition fetchMultisigs_try :: "env \<Rightarrow> ChainInfo \<Rightarrow> string \<Rightarrow> world \<Rightarrow> (error + unit) \<times> world" where
  "fetchMultisigs_try env chain addr w0 =
     (case getSignature env chain addr w0 of
        (Inl e, w1) \<Rightarrow> (Inl e, w1)
      | (Inr signature, w1) \<Rightarrow>
     (let url = ''/api/chain/'' @ chainId chain @ ''/multisig/list'';
          w2 = emit (RequestJson url (Some (signature, chain))) w1 in
      case requestJson (list_endpoint env url (signature, chain)) of
        Inl e \<Rightarrow> (Inl e, w2)
      | Inr newMultisigs \<Rightarrow> (Inr (), setMultisigs newMultisigs w2)))"

definition fetchMultisigs_catch :: "error \<Rightarrow> world \<Rightarrow> world" where
  "fetchMultisigs_catch e w =
     emit (ToastError ''Failed to fetch multisigs'' (if instanceof_Error e then Some e else None))
       (emit (ConsoleError ''Failed to fetch multisigs:'' e) w)"

definition fetchMultisigs :: "env \<Rightarrow> ChainInfo \<Rightarrow> string \<Rightarrow> world \<Rightarrow> world" where
  "fetchMultisigs env chain addr w0 =
     (case fetchMultisigs_try env chain addr w0 of
        (Inl e, w1) \<Rightarrow> fetchMultisigs_catch e w1
      | (Inr _, w1) \<Rightarrow> w1)"

subsection \<open>connectWallet (lines 103 to 131)\<close>

definition connectWallet_try :: "env \<Rightarrow> ChainInfo \<Rightarrow> world \<Rightarrow> (error + unit) \<times> world" where
  "connectWallet_try env chain w0 =
     (let w1 = setLoading True w0;
          w2 = emit (KeplrEnable (chainId chain)) w1 in
      case keplr_enable env (chainId chain) of
        Inl e \<Rightarrow> (Inl e, w2)
      | Inr _ \<Rightarrow>
     (let w3 = emit KeplrSetDefaultOptions w2;
          w4 = emit (KeplrGetKey (chainId chain)) w3 in
      case keplr_getKey env (chainId chain) of
        Inl e \<Rightarrow> (Inl e, w4)
      | Inr k \<Rightarrow>
     (let pubKey = toBase64 (key_pubKey k);
          w5 = setWalletInfo \<lparr>address = bech32Address k, pubKey = pubKey\<rparr> w4
      in (Inr (), fetchMultisigs env chain (bech32Address k) w5))))"

definition connectWallet_catch :: "env \<Rightarrow> error \<Rightarrow> world \<Rightarrow> world" where
  "connectWallet_catch env e w =
     (let connectError = getConnectError env e in
      emit (ToastError connectError (if instanceof_Error e then Some e else None))
        (emit (ConsoleError connectError e) w))"

definition connectWallet :: "env \<Rightarrow> ChainInfo \<Rightarrow> world \<Rightarrow> world" where
  "connectWallet env chain w0 =
     setLoading False
       (case connectWallet_try env chain w0 of
          (Inl e, w1) \<Rightarrow> connectWallet_catch env e w1
        | (Inr _, w1) \<Rightarrow> w1)"

subsection \<open>The layout effect (lines 133 to 144)\<close>

text \<open>
  React's contract for \<^verbatim>\<open>useLayoutEffect(effect, deps)\<close>: after the commit of the first
  render, and after the commit of every later render whose dependencies differ from
  those of the previous render, the cleanup function that the previous run of the
  effect returned (if it returned one) is called and then the effect runs; when the
  component is discarded the pending cleanup function is called.

  The dependencies are the memoised callback \<^verbatim>\<open>connectWallet\<close> and
  \<^verbatim>\<open>walletInfo?.address\<close>. The callback is compared by identity; its identity as of a
  render is a value of the type variable \<open>'cb\<close>. \<open>listeners\<close> is the window's list of
  listeners for \<^verbatim>\<open>"keplr_keystorechange"\<close> as far as this component fills it, and
  \<open>window_calls\<close> logs the calls of \<^verbatim>\<open>addEventListener\<close> and \<^verbatim>\<open>removeEventListener\<close>.
\<close>

datatype 'cb window_call = AddEventListener string 'cb | RemoveEventListener string 'cb

record 'cb hook =
  listeners :: "'cb list"
  window_calls :: "'cb window_call list"
  cleanup :: "'cb option"
  deps :: "('cb \<times> string option) option"

definition accountChangeKey :: string where
  "accountChangeKey = ''keplr_keystorechange''"

text \<open>\<^verbatim>\<open>walletInfo?.address\<close> (\<open>None\<close> is \<^verbatim>\<open>undefined\<close>) and JavaScript's \<^verbatim>\<open>!\<close> on it.\<close>

definition optional_address :: "WalletInfo option \<Rightarrow> string option" where
  "optional_address wi = map_option address wi"

definition falsy :: "string option \<Rightarrow> bool" where
  "falsy a = (case a of None \<Rightarrow> True | Some s \<Rightarrow> s = [])"

text \<open>
  \<^verbatim>\<open>addEventListener\<close> ignores a listener that is already registered for the type;
  \<^verbatim>\<open>removeEventListener\<close> removes the matching listener, if any.
\<close>

definition addEventListener :: "'cb \<Rightarrow> 'cb hook \<Rightarrow> 'cb hook" where
  "addEventListener cb h =
     h\<lparr>listeners := (if cb \<in> set (listeners h) then listeners h else listeners h @ [cb]),
       window_calls := window_calls h @ [AddEventListener accountChangeKey cb]\<rparr>"

definition removeEventListener :: "'cb \<Rightarrow> 'cb hook \<Rightarrow> 'cb hook" where
  "removeEventListener cb h =
     h\<lparr>listeners := removeAll cb (listeners h),
       window_calls := window_calls h @ [RemoveEventListener accountChangeKey cb]\<rparr>"

text \<open>The effect's body: it returns early, or registers and returns the cleanup.\<close>

definition layoutEffect :: "'cb \<Rightarrow> WalletInfo option \<Rightarrow> 'cb hook \<Rightarrow> 'cb hook" where
  "layoutEffect connectWallet_cb wi h =
     (if falsy (optional_address wi) then h\<lparr>cleanup := None\<rparr>
      else (addEventListener connectWallet_cb h)\<lparr>cleanup := Some connectWallet_cb\<rparr>)"

definition runCleanup :: "'cb hook \<Rightarrow> 'cb hook" where
  "runCleanup h =
     (case cleanup h of
        None \<Rightarrow> h
      | Some cb \<Rightarrow> (removeEventListener cb h)\<lparr>cleanup := None\<rparr>)"

definition mounted :: "'cb hook" where
  "mounted = \<lparr>listeners = [], window_calls = [], cleanup = None, deps = None\<rparr>"

definition commit :: "'cb \<Rightarrow> WalletInfo option \<Rightarrow> 'cb hook \<Rightarrow> 'cb hook" where
  "commit connectWallet_cb wi h =
     (let d = (connectWallet_cb, optional_address wi) in
      if deps h = Some d then h
      else (layoutEffect connectWallet_cb wi (runCleanup h))\<lparr>deps := Some d\<rparr>)"

definition unmount :: "'cb hook \<Rightarrow> 'cb hook" where
  "unmount h = (runCleanup h)\<lparr>deps := None\<rparr>"

text \<open>
  The component's life up to some point: the commits of its renders, each with the
  callback identity and the \<^verbatim>\<open>walletInfo\<close> of that render.
\<close>

definition lifecycle :: "('cb \<times> WalletInfo option) list \<Rightarrow> 'cb hook" where
  "lifecycle renders = foldl (\<lambda>h (cb, wi). commit cb wi h) mounted renders"

subsection \<open>The returned markup (lines 146 to 233)\<close>

text \<open>
  \<^verbatim>\<open>MultisigThresholdPubkey\<close> (@cosmjs/amino), the declared type of the value that
  \<^verbatim>\<open>JSON.parse\<close> returns at line 200, with the \<^verbatim>\<open>value\<close> object flattened. The parser
  belongs to the JavaScript runtime and is a parameter of the model: \<open>JSON_parse s\<close> is
  \<open>None\<close> where \<^verbatim>\<open>JSON.parse(s)\<close> throws. The declared type is taken at its word: a
  text that parses to a value of another shape is not modelled.
\<close>

record SinglePubkey =
  pk_type :: string
  pk_value :: string

record MultisigThresholdPubkey =
  threshold :: string
  pubkeys :: "SinglePubkey list"

text \<open>A rendered row: the link's key and target, and the two numbers of the badge.\<close>

record row =
  row_key :: string
  row_href :: string
  row_threshold :: string
  row_members :: nat

definition renderRow ::
  "(string \<Rightarrow> MultisigThresholdPubkey option) \<Rightarrow> ChainInfo \<Rightarrow> MultisigFromQuery \<Rightarrow> error + row"
where
  "renderRow JSON_parse chain multisig =
     (case JSON_parse (pubkeyJSON multisig) of
        None \<Rightarrow> Inl SyntaxError
      | Some pubkey \<Rightarrow>
          Inr \<lparr>row_key = multisig_address multisig,
               row_href = ''/'' @ registryName chain @ ''/'' @ multisig_address multisig,
               row_threshold = threshold pubkey,
               row_members = length (pubkeys pubkey)\<rparr>)"

text \<open>\<^verbatim>\<open>Array.prototype.map\<close> with a callback that may throw: the first throw ends it.\<close>

fun mapRows ::
  "(string \<Rightarrow> MultisigThresholdPubkey option) \<Rightarrow> ChainInfo \<Rightarrow> MultisigFromQuery list
     \<Rightarrow> error + row list"
where
  "mapRows JSON_parse chain [] = Inr []"
| "mapRows JSON_parse chain (m # ms) =
     (case renderRow JSON_parse chain m of
        Inl e \<Rightarrow> Inl e
      | Inr r \<Rightarrow>
          (case mapRows JSON_parse chain ms of
             Inl e \<Rightarrow> Inl e
           | Inr rs \<Rightarrow> Inr (r # rs)))"

text \<open>Line 199: the sequence that is mapped to rows.\<close>

definition displayedSet :: "bool \<Rightarrow> FetchedMultisigs \<Rightarrow> MultisigFromQuery list" where
  "displayedSet showBelonged_now m = (if showBelonged_now then belonged m else created m)"

text \<open>Line 184: the guard of the fragment that holds the switch and the rows.\<close>

definition listShown :: "'a state_scheme \<Rightarrow> bool" where
  "listShown st =
     (case multisigs st of
        None \<Rightarrow> False
      | Some m \<Rightarrow> length (created m) \<noteq> 0 \<or> length (belonged m) \<noteq> 0)"

text \<open>
  Lines 186 to 197: the switch, present with its \<^verbatim>\<open>checked\<close> property or absent. It
  sits inside the fragment of line 184.
\<close>

definition toggleControl :: "'a state_scheme \<Rightarrow> bool option" where
  "toggleControl st =
     (case multisigs st of
        None \<Rightarrow> None
      | Some m \<Rightarrow>
          if listShown st \<and> length (created m) \<noteq> length (belonged m)
          then Some (showBelonged st) else None)"

text \<open>The switch's \<^verbatim>\<open>onCheckedChange\<close> handler, lines 191 to 193.\<close>

definition onCheckedChange :: "bool \<Rightarrow> world \<Rightarrow> world" where
  "onCheckedChange checked w = setShowBelonged checked w"

text \<open>
  What the component function returns, or the error it throws. \<open>verifyButton\<close> is the
  button of lines 157 to 170 with its \<^verbatim>\<open>disabled\<close> property, \<open>loadingNotice\<close> the block
  of lines 173 to 176, the two notices the texts of lines 179 and 182, \<open>toggle\<close> and
  \<open>rows\<close> the contents of the fragment of line 184 (both empty when it is absent).
\<close>

record view =
  verifyButton :: "bool option"
  loadingNotice :: bool
  notCreatedNotice :: bool
  notMemberNotice :: bool
  toggle :: "bool option"
  rows :: "row list"

definition render ::
  "(string \<Rightarrow> MultisigThresholdPubkey option) \<Rightarrow> ChainInfo \<Rightarrow> 'a state_scheme \<Rightarrow> error + view"
where
  "render JSON_parse chain st =
     (let button = (if walletInfo st = None \<and> multisigs st = None then Some (loading st) else None);
          notice = (walletInfo st \<noteq> None \<and> multisigs st = None);
          notCreated = (\<not> showBelonged st \<and>
                        (case multisigs st of None \<Rightarrow> False | Some m \<Rightarrow> length (created m) = 0));
          notMember = (showBelonged st \<and>
                        (case multisigs st of None \<Rightarrow> False | Some m \<Rightarrow> length (belonged m) = 0))
      in case multisigs st of
           None \<Rightarrow>
             Inr \<lparr>verifyButton = button, loadingNotice = notice, notCreatedNotice = notCreated,
                  notMemberNotice = notMember, toggle = None, rows = []\<rparr>
         | Some m \<Rightarrow>
             if listShown st then
               (case mapRows JSON_parse chain (displayedSet (showBelonged st) m) of
                  Inl e \<Rightarrow> Inl e
                | Inr rs \<Rightarrow>
                    Inr \<lparr>verifyButton = button, loadingNotice = notice,
                         notCreatedNotice = notCreated, notMemberNotice = notMember,
                         toggle = toggleControl st, rows = rs\<rparr>)
             else
               Inr \<lparr>verifyButton = button, loadingNotice = notice, notCreatedNotice = notCreated,
                    notMemberNotice = notMember, toggle = None, rows = []\<rparr>)"

subsection \<open>Vocabulary for the traces\<close>

text \<open>The events a run appended to the trace it started with.\<close>

definition new_events :: "world \<Rightarrow> world \<Rightarrow> event list" where
  "new_events w w' = drop (length (trace w)) (trace w')"

fun isSignRequest :: "event \<Rightarrow> bool" where
  "isSignRequest (KeplrSignAmino _ _ _) = True"
| "isSignRequest _ = False"

fun isNetworkRequest :: "event \<Rightarrow> bool" where
  "isNetworkRequest (StargateConnect _) = True"
| "isNetworkRequest (ClientGetAccount _) = True"
| "isNetworkRequest (RequestJson _ _) = True"
| "isNetworkRequest _ = False"

fun isSetMultisigs :: "event \<Rightarrow> bool" where
  "isSetMultisigs (SetMultisigs _) = True"
| "isSetMultisigs _ = False"

fun isSetWalletInfo :: "event \<Rightarrow> bool" where
  "isSetWalletInfo (SetWalletInfo _) = True"
| "isSetWalletInfo _ = False"

fun isToastError :: "event \<Rightarrow> bool" where
  "isToastError (ToastError _ _) = True"
| "isToastError _ = False"

text \<open>The payloads (the \<^verbatim>\<open>data\<close> fields) handed to the signing agent, in order.\<close>

fun signedPayloads :: "event list \<Rightarrow> string list" where
  "signedPayloads [] = []"
| "signedPayloads (KeplrSignAmino _ _ doc # es) = map data (msgs doc) @ signedPayloads es"
| "signedPayloads (_ # es) = signedPayloads es"

subsection \<open>Concrete collaborators for the scenarios\<close>

definition cosmoshub :: ChainInfo where
  "cosmoshub = \<lparr>chainId = ''cosmoshub-4'', chainDisplayName = ''Cosmos Hub'',
                nodeAddress = ''https://rpc.cosmos.example'', registryName = ''cosmoshub''\<rparr>"

definition dq :: string where
  "dq = [CHR 0x22]"

text \<open>The JSON text of a 1-of-1 threshold key, and its parsed form.\<close>

definition pubkeyJSON_1of1 :: string where
  "pubkeyJSON_1of1 =
     ''{'' @ dq @ ''type'' @ dq @ '':'' @ dq @ ''tendermint/PubKeyMultisigThreshold'' @ dq @ '','' @
     dq @ ''value'' @ dq @ '':{'' @ dq @ ''threshold'' @ dq @ '':'' @ dq @ ''1'' @ dq @ '','' @
     dq @ ''pubkeys'' @ dq @ '':[{'' @ dq @ ''type'' @ dq @ '':'' @ dq @ ''tendermint/PubKeySecp256k1'' @ dq @
     '','' @ dq @ ''value'' @ dq @ '':'' @ dq @ ''AQID'' @ dq @ ''}]}}''"

definition pubkey_1of1 :: MultisigThresholdPubkey where
  "pubkey_1of1 = \<lparr>threshold = ''1'',
                   pubkeys = [\<lparr>pk_type = ''tendermint/PubKeySecp256k1'', pk_value = ''AQID''\<rparr>]\<rparr>"

text \<open>
  A stand-in for \<^verbatim>\<open>JSON.parse\<close> on the two texts the scenarios use: it parses the text
  above and throws on the unbalanced \<^verbatim>\<open>{\<close>.
\<close>

definition parse_1of1 :: "string \<Rightarrow> MultisigThresholdPubkey option" where
  "parse_1of1 s = (if s = pubkeyJSON_1of1 then Some pubkey_1of1 else None)"

definition good_entry :: "string \<Rightarrow> MultisigFromQuery" where
  "good_entry a = \<lparr>multisig_address = a, pubkeyJSON = pubkeyJSON_1of1\<rparr>"

definition bad_entry :: "string \<Rightarrow> MultisigFromQuery" where
  "bad_entry a = \<lparr>multisig_address = a, pubkeyJSON = ''{''\<rparr>"

text \<open>Scenario D: two created entries, five belonged entries.\<close>

definition scenario_D :: FetchedMultisigs where
  "scenario_D =
     \<lparr>created = [good_entry ''cosmos1m1'', good_entry ''cosmos1m2''],
      belonged = [good_entry ''cosmos1m1'', good_entry ''cosmos1m2'', good_entry ''cosmos1m3'',
                  good_entry ''cosmos1m4'', good_entry ''cosmos1m5'']\<rparr>"

text \<open>Scenario E: one entry whose \<^verbatim>\<open>pubkeyJSON\<close> is not JSON.\<close>

definition scenario_E :: FetchedMultisigs where
  "scenario_E = \<lparr>created = [bad_entry ''cosmos1m1''], belonged = []\<rparr>"

definition keplr_key :: Key where
  "keplr_key = \<lparr>bech32Address = ''cosmos1abc'', key_pubKey = [1, 2, 3]\<rparr>"

text \<open>Every collaborator answers; the backend lists scenario D.\<close>

definition all_ok :: env where
  "all_ok =
     \<lparr>stargate_connect = (\<lambda>_. Inr ()),
      client_getAccount = (\<lambda>_ a. Inr (Some \<lparr>account_address = a\<rparr>)),
      nonce_endpoint = (\<lambda>_. HttpResponse 200 ''7''),
      list_endpoint = (\<lambda>_ _. HttpResponse 200 scenario_D),
      keplr_enable = (\<lambda>_. Inr ()),
      keplr_getKey = (\<lambda>_. Inr keplr_key),
      keplr_signAmino = (\<lambda>_ _ _. Inr ''c2ln''),
      getConnectError = (\<lambda>_. ''Failed to connect wallet'')\<rparr>"

text \<open>Scenario A: the address was never seen on chain.\<close>

definition no_account :: env where
  "no_account = all_ok\<lparr>client_getAccount := (\<lambda>_ _. Inr None)\<rparr>"

text \<open>Scenario B: the nonce request is answered with HTTP 500.\<close>

definition nonce_500 :: env where
  "nonce_500 = all_ok\<lparr>nonce_endpoint := (\<lambda>_. HttpResponse 500 [])\<rparr>"

text \<open>The list request is answered with HTTP 500.\<close>

definition list_500 :: env where
  "list_500 = all_ok\<lparr>list_endpoint := (\<lambda>_ _. HttpResponse 500 \<lparr>created = [], belonged = []\<rparr>)\<rparr>"

text \<open>Scenario E: the backend lists the malformed entry.\<close>

definition malformed_list :: env where
  "malformed_list = all_ok\<lparr>list_endpoint := (\<lambda>_ _. HttpResponse 200 scenario_E)\<rparr>"

text \<open>The user declines the signature request in the agent.\<close>

definition agent_rejects :: env where
  "agent_rejects = all_ok\<lparr>keplr_signAmino := (\<lambda>_ _ _. Inl (AgentError ''Request rejected''))\<rparr>"

subsection \<open>Invariants of the layout effect\<close>

text \<open>
  \<open>paired\<close>: the window holds the listener of the pending cleanup function and no other,
  and for every callback the calls of \<^verbatim>\<open>addEventListener\<close> exceed the calls of
  \<^verbatim>\<open>removeEventListener\<close> by one exactly if its cleanup is pending.
  \<open>coherent\<close>: a cleanup is pending exactly if the effect last ran with a truthy address,
  and it is for the callback of that run.
\<close>

definition paired :: "'cb hook \<Rightarrow> bool" where
  "paired h =
     (listeners h = (case cleanup h of None \<Rightarrow> [] | Some cb \<Rightarrow> [cb]) \<and>
      (\<forall>c. count_list (window_calls h) (AddEventListener accountChangeKey c) =
           count_list (window_calls h) (RemoveEventListener accountChangeKey c) +
           (if cleanup h = Some c then 1 else 0)))"

definition coherent :: "'cb hook \<Rightarrow> bool" where
  "coherent h =
     (case deps h of
        None \<Rightarrow> cleanup h = None
      | Some (cb, a) \<Rightarrow> cleanup h = (if falsy a then None else Some cb))"

section \<open>Basic facts\<close>

subsection \<open>State cells and trace under the setters\<close>

lemma emit_simps:
  "loading (emit e w) = loading w"
  "walletInfo (emit e w) = walletInfo w"
  "showBelonged (emit e w) = showBelonged w"
  "multisigs (emit e w) = multisigs w"
  "trace (emit e w) = trace w @ [e]"
  by (simp_all add: emit_def)

lemma setter_simps:
  "loading (setLoading b w) = b"
  "walletInfo (setLoading b w) = walletInfo w"
  "multisigs (setLoading b w) = multisigs w"
  "showBelonged (setLoading b w) = showBelonged w"
  "trace (setLoading b w) = trace w @ [SetLoading b]"
  "loading (setWalletInfo i w) = loading w"
  "walletInfo (setWalletInfo i w) = Some i"
  "multisigs (setWalletInfo i w) = multisigs w"
  "showBelonged (setWalletInfo i w) = showBelonged w"
  "trace (setWalletInfo i w) = trace w @ [SetWalletInfo i]"
  "loading (setMultisigs m w) = loading w"
  "walletInfo (setMultisigs m w) = walletInfo w"
  "multisigs (setMultisigs m w) = Some m"
  "showBelonged (setMultisigs m w) = showBelonged w"
  "trace (setMultisigs m w) = trace w @ [SetMultisigs m]"
  "loading (setShowBelonged b w) = loading w"
  "walletInfo (setShowBelonged b w) = walletInfo w"
  "multisigs (setShowBelonged b w) = multisigs w"
  "showBelonged (setShowBelonged b w) = b"
  "trace (setShowBelonged b w) = trace w @ [SetShowBelonged b]"
  by (simp_all add: setLoading_def setWalletInfo_def setMultisigs_def setShowBelonged_def emit_def)

subsection \<open>The encoders on concrete inputs\<close>

lemma toBase64_examples:
  "toBase64 [1, 2, 3] = ''AQID''"
  "toBase64 (Buffer_from ''Ma'') = ''TWE=''"
  "toBase64 (Buffer_from ''M'') = ''TQ==''"
  by (simp_all add: base64char_def Buffer_from_def)

lemma quoteJSONString_example:
  "quoteJSONString [CHR 0x22, CHR 0x0A, CHR 0x1F, CHR ''a'', CHR 0x5C, CHR 0x7F] =
     [CHR 0x22, CHR 0x5C, CHR 0x22, CHR 0x5C, CHR ''n'', CHR 0x5C, CHR ''u'', CHR ''0'', CHR ''0'',
      CHR ''1'', CHR ''f'', CHR ''a'', CHR 0x5C, CHR 0x5C, CHR 0x7F, CHR 0x22]"
  by (simp add: quoteJSONString_def quoteJSONChar_def hexdigit_def)

lemma JSON_stringify_example:
  "JSON_stringify (challenge ''Cosmos Hub'' ''7'') =
     ''{'' @ dq @ ''title'' @ dq @ '':'' @ dq @ ''Keplr Login to Cosmos Hub'' @ dq @ '','' @
     dq @ ''description'' @ dq @ '':'' @ dq @
     ''Sign this no fee transaction to login with your Keplr wallet'' @ dq @ '','' @
     dq @ ''nonce'' @ dq @ '':'' @ dq @ ''7'' @ dq @ ''}''"
  by (simp add: JSON_stringify_def challenge_def quoteJSONString_def quoteJSONChar_def dq_def)

lemma challengeData_example:
  "challengeData ''Cosmos Hub'' ''7'' =
     ''eyJ0aXRsZSI6IktlcGxyIExvZ2luIHRvIENvc21vcyBIdWIiLCJkZXNjcmlwdGlvbiI6IlNpZ24gdGhpcyBubyBmZWUgdHJhbnNhY3Rpb24gdG8gbG9naW4gd2l0aCB5b3VyIEtlcGxyIHdhbGxldCIsIm5vbmNlIjoiNyJ9''"
  by (simp add: challengeData_def challengeBytes_def JSON_stringify_def challenge_def
        quoteJSONString_def quoteJSONChar_def base64char_def Buffer_from_def)

subsection \<open>getSignature and fetchMultisigs: what they leave alone\<close>

text \<open>
  \<^verbatim>\<open>getSignature\<close> writes no state cell and only appends to the trace; whether it
  throws depends on the collaborators only.
\<close>

lemma getSignature_frame:
  "loading (snd (getSignature env chain a w)) = loading w \<and>
   walletInfo (snd (getSignature env chain a w)) = walletInfo w \<and>
   showBelonged (snd (getSignature env chain a w)) = showBelonged w \<and>
   multisigs (snd (getSignature env chain a w)) = multisigs w"
  by (simp add: getSignature_def Let_def emit_simps split: sum.splits option.splits)

lemma getSignature_outcome_indep:
  "fst (getSignature env chain a w) = fst (getSignature env chain a w')"
  by (simp add: getSignature_def Let_def split: sum.splits option.splits)

lemma getSignature_trace:
  "\<exists>es. trace (snd (getSignature env chain a w)) = trace w @ es \<and>
        (\<forall>e \<in> set es. \<not> isSetMultisigs e \<and> \<not> isSetWalletInfo e \<and> \<not> isToastError e)"
  by (simp add: getSignature_def Let_def emit_simps split: sum.splits option.splits)

lemma fetchMultisigs_try_outcome_indep:
  "fst (fetchMultisigs_try env chain a w) = fst (fetchMultisigs_try env chain a w')"
  using getSignature_outcome_indep [of env chain a w w']
  by (auto simp add: fetchMultisigs_try_def Let_def split: prod.splits sum.splits)


text \<open>The try body of \<^verbatim>\<open>fetchMultisigs\<close> throws exactly if one of its six steps does.\<close>

lemma fetchMultisigs_try_error_cases:
  "(fst (fetchMultisigs_try env chain a w) = Inl e) =
     (stargate_connect env (nodeAddress chain) = Inl e \<or>
      (\<exists>u. stargate_connect env (nodeAddress chain) = Inr u \<and>
        (client_getAccount env (nodeAddress chain) a = Inl e \<or>
         client_getAccount env (nodeAddress chain) a = Inr None \<and> e = AccountNotFound a \<or>
         (\<exists>acc. client_getAccount env (nodeAddress chain) a = Inr (Some acc) \<and>
           (requestJson (nonce_endpoint env
              (''/api/chain/'' @ chainId chain @ ''/nonce/'' @ account_address acc)) = Inl e \<or>
            (\<exists>nonce. requestJson (nonce_endpoint env
                (''/api/chain/'' @ chainId chain @ ''/nonce/'' @ account_address acc)) = Inr nonce \<and>
              (keplr_signAmino env (chainId chain) (account_address acc)
                 (signDoc chain (account_address acc) nonce) = Inl e \<or>
               (\<exists>signature. keplr_signAmino env (chainId chain) (account_address acc)
                    (signDoc chain (account_address acc) nonce) = Inr signature \<and>
                  requestJson (list_endpoint env (''/api/chain/'' @ chainId chain @ ''/multisig/list'')
                    (signature, chain)) = Inl e))))))))"
  by (auto simp add: fetchMultisigs_try_def getSignature_def Let_def
        split: sum.splits option.splits prod.splits)

lemma fetchMultisigs_try_fail_frame:
  assumes "fst (fetchMultisigs_try env chain a w) = Inl e"
  shows "multisigs (snd (fetchMultisigs_try env chain a w)) = multisigs w"
    and "walletInfo (snd (fetchMultisigs_try env chain a w)) = walletInfo w"
    and "loading (snd (fetchMultisigs_try env chain a w)) = loading w"
    and "\<exists>es. trace (snd (fetchMultisigs_try env chain a w)) = trace w @ es \<and>
          (\<forall>x \<in> set es. \<not> isSetMultisigs x \<and> \<not> isSetWalletInfo x \<and> \<not> isToastError x)"
proof -
  obtain r w1 where g: "getSignature env chain a w = (r, w1)"
    by (cases "getSignature env chain a w")
  have fr: "multisigs w1 = multisigs w" "walletInfo w1 = walletInfo w" "loading w1 = loading w"
    using getSignature_frame [of env chain a w] g by simp_all
  obtain es where es: "trace w1 = trace w @ es"
      "\<forall>x \<in> set es. \<not> isSetMultisigs x \<and> \<not> isSetWalletInfo x \<and> \<not> isToastError x"
    using getSignature_trace [of env chain a w] g by auto
  show "multisigs (snd (fetchMultisigs_try env chain a w)) = multisigs w"
    using assms g fr
    by (auto simp add: fetchMultisigs_try_def Let_def emit_simps split: sum.splits)
  show "walletInfo (snd (fetchMultisigs_try env chain a w)) = walletInfo w"
    using assms g fr
    by (auto simp add: fetchMultisigs_try_def Let_def emit_simps split: sum.splits)
  show "loading (snd (fetchMultisigs_try env chain a w)) = loading w"
    using assms g fr
    by (auto simp add: fetchMultisigs_try_def Let_def emit_simps split: sum.splits)
  show "\<exists>es. trace (snd (fetchMultisigs_try env chain a w)) = trace w @ es \<and>
          (\<forall>x \<in> set es. \<not> isSetMultisigs x \<and> \<not> isSetWalletInfo x \<and> \<not> isToastError x)"
    using assms g es
    by (auto simp add: fetchMultisigs_try_def Let_def emit_simps split: sum.splits)
qed

lemma fetchMultisigs_walletInfo:
  "walletInfo (fetchMultisigs env chain a w) = walletInfo w"
proof -
  obtain r w1 where g: "getSignature env chain a w = (r, w1)"
    by (cases "getSignature env chain a w")
  have "walletInfo w1 = walletInfo w"
    using getSignature_frame [of env chain a w] g by simp
  then show ?thesis using g
    by (auto simp add: fetchMultisigs_def fetchMultisigs_try_def fetchMultisigs_catch_def
          Let_def emit_simps setter_simps split: sum.splits prod.splits)
qed

lemma fetchMultisigs_loading:
  "loading (fetchMultisigs env chain a w) = loading w"
proof -
  obtain r w1 where g: "getSignature env chain a w = (r, w1)"
    by (cases "getSignature env chain a w")
  have "loading w1 = loading w"
    using getSignature_frame [of env chain a w] g by simp
  then show ?thesis using g
    by (auto simp add: fetchMultisigs_def fetchMultisigs_try_def fetchMultisigs_catch_def
          Let_def emit_simps setter_simps split: sum.splits prod.splits)
qed

lemma fetchMultisigs_trace:
  "\<exists>es. trace (fetchMultisigs env chain a w) = trace w @ es \<and>
        (\<forall>x \<in> set es. \<not> isSetWalletInfo x)"
proof -
  obtain r w1 where g: "getSignature env chain a w = (r, w1)"
    by (cases "getSignature env chain a w")
  obtain es where es: "trace w1 = trace w @ es"
      "\<forall>x \<in> set es. \<not> isSetMultisigs x \<and> \<not> isSetWalletInfo x \<and> \<not> isToastError x"
    using getSignature_trace [of env chain a w] g by auto
  show ?thesis using g es
    by (auto simp add: fetchMultisigs_def fetchMultisigs_try_def fetchMultisigs_catch_def
          Let_def emit_simps setter_simps split: sum.splits prod.splits)
qed

lemma signed_payload_of_run:
  assumes node: "stargate_connect env (nodeAddress chain) = Inr u"
      and acc: "client_getAccount env (nodeAddress chain) a = Inr (Some accountOnChain)"
      and nonce: "requestJson (nonce_endpoint env
                    (''/api/chain/'' @ chainId chain @ ''/nonce/'' @ account_address accountOnChain))
                  = Inr nonce"
  shows "signedPayloads (new_events w (snd (getSignature env chain a w))) =
           [challengeData (chainDisplayName chain) nonce]"
  using assms
  by (simp add: getSignature_def Let_def emit_simps new_events_def signDoc_def
        split: sum.splits)

subsection \<open>Rendering the rows\<close>

lemma mapRows_Inl:
  "mapRows P chain ms = Inl e \<Longrightarrow> e = SyntaxError \<and> (\<exists>m \<in> set ms. P (pubkeyJSON m) = None)"
  by (induction ms) (auto simp add: renderRow_def split: option.splits sum.splits)

lemma mapRows_bad:
  "\<exists>m \<in> set ms. P (pubkeyJSON m) = None \<Longrightarrow> mapRows P chain ms = Inl SyntaxError"
proof (induction ms)
  case Nil
  then show ?case by simp
next
  case (Cons m ms)
  show ?case
  proof (cases "P (pubkeyJSON m)")
    case None
    then show ?thesis by (simp add: renderRow_def)
  next
    case (Some pk)
    then have "\<exists>x \<in> set ms. P (pubkeyJSON x) = None"
      using Cons.prems by auto
    then have "mapRows P chain ms = Inl SyntaxError" by (rule Cons.IH)
    then show ?thesis using Some by (simp add: renderRow_def)
  qed
qed

lemma mapRows_Inr:
  "mapRows P chain ms = Inr rs \<Longrightarrow>
     map row_key rs = map multisig_address ms \<and> length rs = length ms \<and>
     (\<forall>m \<in> set ms. P (pubkeyJSON m) \<noteq> None)"
  by (induction ms arbitrary: rs) (auto simp add: renderRow_def split: option.splits sum.splits)

lemma render_Inl_iff:
  assumes "multisigs st = Some m"
  shows "(render P chain st = Inl SyntaxError) =
           (\<exists>x \<in> set (displayedSet (showBelonged st) m). P (pubkeyJSON x) = None)"
proof
  assume "render P chain st = Inl SyntaxError"
  then have "mapRows P chain (displayedSet (showBelonged st) m) = Inl SyntaxError"
    using assms by (simp add: render_def Let_def split: if_splits sum.splits)
  then show "\<exists>x \<in> set (displayedSet (showBelonged st) m). P (pubkeyJSON x) = None"
    using mapRows_Inl by blast
next
  assume bad: "\<exists>x \<in> set (displayedSet (showBelonged st) m). P (pubkeyJSON x) = None"
  then have "displayedSet (showBelonged st) m \<noteq> []" by auto
  then have shown: "listShown st"
    using assms by (auto simp add: listShown_def displayedSet_def split: if_splits)
  have "mapRows P chain (displayedSet (showBelonged st) m) = Inl SyntaxError"
    using bad by (rule mapRows_bad)
  then show "render P chain st = Inl SyntaxError"
    using assms shown by (simp add: render_def Let_def)
qed

lemma render_Inr_rows:
  assumes "multisigs st = Some m" and "render P chain st = Inr v"
  shows "mapRows P chain (displayedSet (showBelonged st) m) = Inr (rows v)"
    and "toggle v = toggleControl st"
proof -
  show "mapRows P chain (displayedSet (showBelonged st) m) = Inr (rows v)"
  proof (cases "listShown st")
    case True
    then show ?thesis using assms
      by (auto simp add: render_def Let_def split: sum.splits)
  next
    case False
    then have "displayedSet (showBelonged st) m = []"
      using assms(1) by (simp add: listShown_def displayedSet_def)
    moreover have "rows v = []"
      using False assms by (auto simp add: render_def Let_def)
    ultimately show ?thesis by simp
  qed
  show "toggle v = toggleControl st"
    using assms
    by (cases "listShown st") (auto simp add: render_def toggleControl_def Let_def split: sum.splits)
qed

subsection \<open>The layout effect keeps its invariants\<close>

lemma paired_mounted: "paired mounted \<and> coherent mounted"
  by (simp add: paired_def coherent_def mounted_def)

lemma paired_runCleanup:
  "paired h \<Longrightarrow> paired (runCleanup h) \<and> cleanup (runCleanup h) = None"
  by (auto simp add: paired_def runCleanup_def removeEventListener_def split: option.splits)

lemma paired_layoutEffect:
  "paired h \<Longrightarrow> cleanup h = None \<Longrightarrow>
     paired (layoutEffect cb wi h) \<and>
     cleanup (layoutEffect cb wi h) = (if falsy (optional_address wi) then None else Some cb)"
  by (auto simp add: paired_def layoutEffect_def addEventListener_def)

lemma paired_commit:
  assumes "paired h" and "coherent h"
  shows "paired (commit cb wi h) \<and> coherent (commit cb wi h) \<and>
         deps (commit cb wi h) = Some (cb, optional_address wi)"
proof (cases "deps h = Some (cb, optional_address wi)")
  case True
  then show ?thesis using assms by (simp add: commit_def)
next
  case False
  have c: "commit cb wi h = (layoutEffect cb wi (runCleanup h))\<lparr>deps := Some (cb, optional_address wi)\<rparr>"
    using False by (simp add: commit_def)
  have 1: "paired (runCleanup h)" "cleanup (runCleanup h) = None"
    using paired_runCleanup [OF assms(1)] by simp_all
  have 2: "paired (layoutEffect cb wi (runCleanup h))"
      "cleanup (layoutEffect cb wi (runCleanup h)) = (if falsy (optional_address wi) then None else Some cb)"
    using paired_layoutEffect [OF 1] by simp_all
  show ?thesis using 2 unfolding c by (simp add: paired_def coherent_def)
qed

lemma lifecycle_snoc: "lifecycle (rs @ [(cb, wi)]) = commit cb wi (lifecycle rs)"
  by (simp add: lifecycle_def)

lemma lifecycle_inv:
  "paired (lifecycle rs) \<and> coherent (lifecycle rs) \<and>
   deps (lifecycle rs) = (if rs = [] then None else Some (fst (last rs), optional_address (snd (last rs))))"
proof (induction rs rule: rev_induct)
  case Nil
  then show ?case using paired_mounted by (simp add: lifecycle_def mounted_def)
next
  case (snoc r rs)
  obtain cb wi where r: "r = (cb, wi)" by (cases r)
  show ?case using paired_commit [of "lifecycle rs" cb wi] snoc.IH
    by (simp add: r lifecycle_snoc)
qed

section \<open>The claims\<close>

subsection \<open>C1: a malformed entry and the fetch\<close>

text \<open>
  C1, as amended. \<^verbatim>\<open>fetchMultisigs\<close> never parses \<^verbatim>\<open>pubkeyJSON\<close>. Whenever signing
  succeeds and the list request returns a result, the fetch does not fail, raises no
  toast, and stores the result in the \<^verbatim>\<open>multisigs\<close> state exactly as received, whatever
  its \<^verbatim>\<open>pubkeyJSON\<close> fields hold. The field is parsed only when the list is rendered:
  there the render throws \<^verbatim>\<open>SyntaxError\<close> exactly if some entry of the displayed sequence
  (\<^verbatim>\<open>belonged\<close> or \<^verbatim>\<open>created\<close>, by the toggle) does not parse, and a render that
  completes has a row for every displayed entry, so no partial list is shown.
\<close>

theorem fetch_stores_result_unparsed:
  assumes sig: "fst (getSignature env chain a w) = Inr signature"
      and list: "requestJson (list_endpoint env (''/api/chain/'' @ chainId chain @ ''/multisig/list'')
                   (signature, chain)) = Inr r"
  shows "fst (fetchMultisigs_try env chain a w) = Inr () \<and>
         multisigs (fetchMultisigs env chain a w) = Some r \<and>
         last (trace (fetchMultisigs env chain a w)) = SetMultisigs r \<and>
         filter isToastError (new_events w (fetchMultisigs env chain a w)) = [] \<and>
         (render JSON_parse chain (fetchMultisigs env chain a w) = Inl SyntaxError) =
           (\<exists>m \<in> set (displayedSet (showBelonged w) r). JSON_parse (pubkeyJSON m) = None) \<and>
         (\<forall>v. render JSON_parse chain (fetchMultisigs env chain a w) = Inr v \<longrightarrow>
              map row_key (rows v) = map multisig_address (displayedSet (showBelonged w) r))"
proof -
  obtain w1 where g: "getSignature env chain a w = (Inr signature, w1)"
    using sig by (cases "getSignature env chain a w") simp
  obtain es where es: "trace w1 = trace w @ es"
      "\<forall>x \<in> set es. \<not> isSetMultisigs x \<and> \<not> isSetWalletInfo x \<and> \<not> isToastError x"
    using getSignature_trace [of env chain a w] g by auto
  have sb: "showBelonged w1 = showBelonged w"
    using getSignature_frame [of env chain a w] g by simp
  define w' where "w' = fetchMultisigs env chain a w"
  have f: "w' = setMultisigs r (emit (RequestJson (''/api/chain/'' @ chainId chain @ ''/multisig/list'')
              (Some (signature, chain))) w1)"
    using g list by (simp add: w'_def fetchMultisigs_def fetchMultisigs_try_def Let_def)
  have ok: "fst (fetchMultisigs_try env chain a w) = Inr ()"
    using g list by (simp add: fetchMultisigs_try_def Let_def)
  have m: "multisigs w' = Some r" and s: "showBelonged w' = showBelonged w"
    using f sb by (simp_all add: setter_simps emit_simps)
  have l: "last (trace w') = SetMultisigs r"
    using f by (simp add: setter_simps)
  have t: "filter isToastError (new_events w w') = []"
    using f es by (simp add: new_events_def setter_simps emit_simps)
  have r1: "(render JSON_parse chain w' = Inl SyntaxError) =
           (\<exists>m \<in> set (displayedSet (showBelonged w) r). JSON_parse (pubkeyJSON m) = None)"
    using render_Inl_iff [OF m, of JSON_parse chain] s by simp
  have r2: "\<forall>v. render JSON_parse chain w' = Inr v \<longrightarrow>
              map row_key (rows v) = map multisig_address (displayedSet (showBelonged w) r)"
    using render_Inr_rows(1) [OF m] mapRows_Inr s by fastforce
  show ?thesis using ok m l t r1 r2 unfolding w'_def by blast
qed

text \<open>
  Witness for C1: scenario D with every collaborator answering. The list is stored, no
  toast is raised, and the render does not throw.
\<close>

theorem fetch_stores_result_unparsed_witness:
  "fst (getSignature all_ok cosmoshub ''cosmos1abc'' initial) = Inr ''c2ln'' \<and>
   requestJson (list_endpoint all_ok (''/api/chain/'' @ chainId cosmoshub @ ''/multisig/list'')
     (''c2ln'', cosmoshub)) = Inr scenario_D \<and>
   multisigs (fetchMultisigs all_ok cosmoshub ''cosmos1abc'' initial) = Some scenario_D \<and>
   filter isToastError (new_events initial (fetchMultisigs all_ok cosmoshub ''cosmos1abc'' initial)) = [] \<and>
   render parse_1of1 cosmoshub (fetchMultisigs all_ok cosmoshub ''cosmos1abc'' initial)
     \<noteq> Inl SyntaxError"
proof -
  have h1: "fst (getSignature all_ok cosmoshub ''cosmos1abc'' initial) = Inr ''c2ln''"
    by (simp add: getSignature_def all_ok_def cosmoshub_def requestJson_def Let_def)
  have h2: "requestJson (list_endpoint all_ok (''/api/chain/'' @ chainId cosmoshub @ ''/multisig/list'')
     (''c2ln'', cosmoshub)) = Inr scenario_D"
    by (simp add: all_ok_def requestJson_def)
  have sb: "showBelonged initial = False"
    by (simp add: initial_def)
  have good: "\<not> (\<exists>m \<in> set (displayedSet False scenario_D). parse_1of1 (pubkeyJSON m) = None)"
    by (simp add: displayedSet_def scenario_D_def good_entry_def parse_1of1_def)
  show ?thesis
    using fetch_stores_result_unparsed [OF h1 h2, of parse_1of1] h1 h2 sb good by simp
qed

text \<open>
  Counterexample to C1 as stated: scenario E. The one entry's \<^verbatim>\<open>pubkeyJSON\<close> is the text
  \<^verbatim>\<open>{\<close>, which is not JSON, and yet the fetch succeeds, raises no toast and stores
  both sequences. The failure surfaces when the stored list is rendered.
\<close>

theorem malformed_entry_is_stored:
  "created scenario_E = [\<lparr>multisig_address = ''cosmos1m1'', pubkeyJSON = ''{''\<rparr>] \<and>
   multisigs initial = None \<and>
   fst (fetchMultisigs_try malformed_list cosmoshub ''cosmos1abc'' initial) = Inr () \<and>
   multisigs (fetchMultisigs malformed_list cosmoshub ''cosmos1abc'' initial) = Some scenario_E \<and>
   filter isToastError (trace (fetchMultisigs malformed_list cosmoshub ''cosmos1abc'' initial)) = [] \<and>
   render parse_1of1 cosmoshub (fetchMultisigs malformed_list cosmoshub ''cosmos1abc'' initial) =
     Inl SyntaxError"
  by (simp add: fetchMultisigs_def fetchMultisigs_try_def getSignature_def malformed_list_def
        all_ok_def cosmoshub_def requestJson_def scenario_E_def bad_entry_def initial_def
        emit_simps setter_simps render_def listShown_def displayedSet_def renderRow_def
        parse_1of1_def pubkeyJSON_1of1_def Let_def)

subsection \<open>C2: the address was never seen on chain\<close>

text \<open>
  C2, as amended. In a connect attempt in which the agent is enabled and yields a key,
  the node is reached and the account lookup returns no account: the sign step fails
  with \<^verbatim>\<open>AccountNotFound\<close> before any nonce or signature request; \<^verbatim>\<open>fetchMultisigs\<close>
  catches it and reports it (console and the toast ``Failed to fetch multisigs''); the
  \<^verbatim>\<open>multisigs\<close> state keeps its value and \<^verbatim>\<open>loading\<close> ends false. The stored wallet
  identity does not stay null: it was set from the agent's key before the sign step
  and is kept.
\<close>

theorem missing_account_attempt:
  assumes en: "keplr_enable env (chainId chain) = Inr u"
      and key: "keplr_getKey env (chainId chain) = Inr k"
      and node: "stargate_connect env (nodeAddress chain) = Inr u'"
      and none: "client_getAccount env (nodeAddress chain) (bech32Address k) = Inr None"
  shows "fst (getSignature env chain (bech32Address k) w') = Inl (AccountNotFound (bech32Address k)) \<and>
         walletInfo (connectWallet env chain w) =
           Some \<lparr>address = bech32Address k, pubKey = toBase64 (key_pubKey k)\<rparr> \<and>
         multisigs (connectWallet env chain w) = multisigs w \<and>
         \<not> loading (connectWallet env chain w) \<and>
         new_events w (connectWallet env chain w) =
           [SetLoading True, KeplrEnable (chainId chain), KeplrSetDefaultOptions,
            KeplrGetKey (chainId chain),
            SetWalletInfo \<lparr>address = bech32Address k, pubKey = toBase64 (key_pubKey k)\<rparr>,
            StargateConnect (nodeAddress chain), ClientGetAccount (bech32Address k),
            ConsoleError ''Failed to fetch multisigs:'' (AccountNotFound (bech32Address k)),
            ToastError ''Failed to fetch multisigs'' (Some (AccountNotFound (bech32Address k))),
            SetLoading False]"
  using assms
  by (simp add: connectWallet_def connectWallet_try_def fetchMultisigs_def fetchMultisigs_try_def
        fetchMultisigs_catch_def getSignature_def Let_def emit_simps setter_simps new_events_def)

text \<open>Witness for C2: scenario A, from the initial state.\<close>

theorem missing_account_attempt_witness:
  "keplr_enable no_account (chainId cosmoshub) = Inr () \<and>
   keplr_getKey no_account (chainId cosmoshub) = Inr keplr_key \<and>
   stargate_connect no_account (nodeAddress cosmoshub) = Inr () \<and>
   client_getAccount no_account (nodeAddress cosmoshub) (bech32Address keplr_key) = Inr None \<and>
   fst (getSignature no_account cosmoshub (bech32Address keplr_key) initial) =
     Inl (AccountNotFound ''cosmos1abc'') \<and>
   walletInfo (connectWallet no_account cosmoshub initial) =
     Some \<lparr>address = ''cosmos1abc'', pubKey = ''AQID''\<rparr> \<and>
   multisigs (connectWallet no_account cosmoshub initial) = None \<and>
   \<not> loading (connectWallet no_account cosmoshub initial)"
proof -
  have h1: "keplr_enable no_account (chainId cosmoshub) = Inr ()"
    by (simp add: no_account_def all_ok_def)
  have h2: "keplr_getKey no_account (chainId cosmoshub) = Inr keplr_key"
    by (simp add: no_account_def all_ok_def)
  have h3: "stargate_connect no_account (nodeAddress cosmoshub) = Inr ()"
    by (simp add: no_account_def all_ok_def)
  have h4: "client_getAccount no_account (nodeAddress cosmoshub) (bech32Address keplr_key) = Inr None"
    by (simp add: no_account_def all_ok_def)
  have k: "bech32Address keplr_key = ''cosmos1abc''" "toBase64 (key_pubKey keplr_key) = ''AQID''"
    by (simp_all add: keplr_key_def base64char_def)
  have i: "multisigs initial = None"
    by (simp add: initial_def)
  show ?thesis
    using missing_account_attempt [OF h1 h2 h3 h4, of initial initial] h1 h2 h3 h4 k i by simp
qed

text \<open>
  Counterexample to C2 as stated: scenario A. The identity is null before the attempt,
  the lookup returns no account, and after the attempt the identity is not null.
\<close>

theorem missing_account_identity_is_set:
  "walletInfo initial = None \<and>
   keplr_getKey no_account (chainId cosmoshub) = Inr keplr_key \<and>
   client_getAccount no_account (nodeAddress cosmoshub) (bech32Address keplr_key) = Inr None \<and>
   walletInfo (connectWallet no_account cosmoshub initial) \<noteq> None \<and>
   walletInfo (connectWallet no_account cosmoshub initial) =
     Some \<lparr>address = ''cosmos1abc'', pubKey = ''AQID''\<rparr>"
  by (simp add: connectWallet_def connectWallet_try_def fetchMultisigs_def fetchMultisigs_try_def
        fetchMultisigs_catch_def getSignature_def no_account_def all_ok_def cosmoshub_def
        keplr_key_def initial_def base64char_def emit_simps setter_simps Let_def)

subsection \<open>C3: the identity survives a failed sign or fetch\<close>

text \<open>
  C3. Once the agent is enabled and has yielded a key, the identity built from that key
  is stored; if the sign step or the list request then fails, the attempt ends with
  that same identity stored. \<^verbatim>\<open>setWalletInfo\<close> is called exactly once in the attempt,
  with that identity, so the error handling neither clears nor replaces it; and
  \<^verbatim>\<open>fetchMultisigs\<close> leaves the identity as it finds it, from any state.
\<close>

theorem identity_retained_on_failure:
  assumes en: "keplr_enable env (chainId chain) = Inr u"
      and key: "keplr_getKey env (chainId chain) = Inr k"
      and fail: "fst (fetchMultisigs_try env chain (bech32Address k) w) = Inl e"
  shows "walletInfo (connectWallet env chain w) =
           Some \<lparr>address = bech32Address k, pubKey = toBase64 (key_pubKey k)\<rparr> \<and>
         filter isSetWalletInfo (new_events w (connectWallet env chain w)) =
           [SetWalletInfo \<lparr>address = bech32Address k, pubKey = toBase64 (key_pubKey k)\<rparr>] \<and>
         (\<forall>w'. walletInfo (fetchMultisigs env chain (bech32Address k) w') = walletInfo w')"
proof -
  define i where "i = \<lparr>address = bech32Address k, pubKey = toBase64 (key_pubKey k)\<rparr>"
  define w5 where "w5 = setWalletInfo i (emit (KeplrGetKey (chainId chain))
      (emit KeplrSetDefaultOptions (emit (KeplrEnable (chainId chain)) (setLoading True w))))"
  have c: "connectWallet env chain w =
      setLoading False (fetchMultisigs env chain (bech32Address k) w5)"
    using en key by (simp add: connectWallet_def connectWallet_try_def Let_def w5_def i_def)
  have w5_info: "walletInfo w5 = Some i"
    by (simp add: w5_def setter_simps)
  have w5_trace: "trace w5 = trace w @ [SetLoading True, KeplrEnable (chainId chain),
      KeplrSetDefaultOptions, KeplrGetKey (chainId chain), SetWalletInfo i]"
    by (simp add: w5_def setter_simps emit_simps)
  obtain es where es: "trace (fetchMultisigs env chain (bech32Address k) w5) = trace w5 @ es"
      "\<forall>x \<in> set es. \<not> isSetWalletInfo x"
    using fetchMultisigs_trace [of env chain "bech32Address k" w5] by auto
  have "walletInfo (connectWallet env chain w) = Some i"
    using c w5_info by (simp add: setter_simps fetchMultisigs_walletInfo)
  moreover have "filter isSetWalletInfo (new_events w (connectWallet env chain w)) = [SetWalletInfo i]"
    using c es w5_trace by (simp add: new_events_def setter_simps)
  ultimately show ?thesis
    by (simp add: i_def fetchMultisigs_walletInfo)
qed

text \<open>
  Witness for C3: the list request is answered with HTTP 500 after a successful sign
  step; the identity of the agent's key is still stored.
\<close>

theorem identity_retained_on_failure_witness:
  "keplr_enable list_500 (chainId cosmoshub) = Inr () \<and>
   keplr_getKey list_500 (chainId cosmoshub) = Inr keplr_key \<and>
   fst (fetchMultisigs_try list_500 cosmoshub (bech32Address keplr_key) initial) = Inl NetworkError \<and>
   walletInfo (connectWallet list_500 cosmoshub initial) =
     Some \<lparr>address = ''cosmos1abc'', pubKey = ''AQID''\<rparr>"
proof -
  have h1: "keplr_enable list_500 (chainId cosmoshub) = Inr ()"
    by (simp add: list_500_def all_ok_def)
  have h2: "keplr_getKey list_500 (chainId cosmoshub) = Inr keplr_key"
    by (simp add: list_500_def all_ok_def)
  have h3: "fst (fetchMultisigs_try list_500 cosmoshub (bech32Address keplr_key) initial) =
      Inl NetworkError"
    by (simp add: fetchMultisigs_try_def getSignature_def list_500_def all_ok_def requestJson_def
          Let_def)
  have k: "bech32Address keplr_key = ''cosmos1abc''" "toBase64 (key_pubKey keplr_key) = ''AQID''"
    by (simp_all add: keplr_key_def base64char_def)
  show ?thesis
    using identity_retained_on_failure [OF h1 h2 h3] h1 h2 h3 k by simp
qed

subsection \<open>C4: when the switch is rendered\<close>




subsection \<open>C5: the challenge handed to the agent\<close>

text \<open>
  C5. Take any two invocations of \<^verbatim>\<open>getSignature\<close> that reach the signing agent, with
  whatever collaborators, chains, addresses and prior states, in which the chain's
  display name is the same and the backend issued the same nonce. The payloads handed
  to the agent are identical; each is the one base64 text of the UTF-8 bytes of the
  JSON text of the challenge built from that display name and nonce.
\<close>

theorem challenge_payload_deterministic:
  assumes name: "chainDisplayName chain1 = displayName" "chainDisplayName chain2 = displayName"
      and node1: "stargate_connect env1 (nodeAddress chain1) = Inr u1"
      and node2: "stargate_connect env2 (nodeAddress chain2) = Inr u2"
      and acc1: "client_getAccount env1 (nodeAddress chain1) a1 = Inr (Some account1)"
      and acc2: "client_getAccount env2 (nodeAddress chain2) a2 = Inr (Some account2)"
      and nonce1: "requestJson (nonce_endpoint env1
                     (''/api/chain/'' @ chainId chain1 @ ''/nonce/'' @ account_address account1))
                   = Inr nonce"
      and nonce2: "requestJson (nonce_endpoint env2
                     (''/api/chain/'' @ chainId chain2 @ ''/nonce/'' @ account_address account2))
                   = Inr nonce"
  shows "signedPayloads (new_events w1 (snd (getSignature env1 chain1 a1 w1))) =
           signedPayloads (new_events w2 (snd (getSignature env2 chain2 a2 w2))) \<and>
         signedPayloads (new_events w1 (snd (getSignature env1 chain1 a1 w1))) =
           [toBase64 (Buffer_from (JSON_stringify (challenge displayName nonce)))]"
  using signed_payload_of_run [OF node1 acc1 nonce1, of w1]
        signed_payload_of_run [OF node2 acc2 nonce2, of w2] name
  by (simp add: challengeData_def challengeBytes_def)

text \<open>
  Witness for C5: two runs for different addresses, one of them with a rejecting agent,
  from different prior states; both hand the agent the same text.
\<close>

theorem challenge_payload_deterministic_witness:
  "chainDisplayName cosmoshub = ''Cosmos Hub'' \<and>
   requestJson (nonce_endpoint all_ok (''/api/chain/'' @ chainId cosmoshub @ ''/nonce/'' @
     account_address \<lparr>account_address = ''cosmos1abc''\<rparr>)) = Inr ''7'' \<and>
   requestJson (nonce_endpoint agent_rejects (''/api/chain/'' @ chainId cosmoshub @ ''/nonce/'' @
     account_address \<lparr>account_address = ''cosmos1xyz''\<rparr>)) = Inr ''7'' \<and>
   signedPayloads (new_events initial (snd (getSignature all_ok cosmoshub ''cosmos1abc'' initial))) =
     signedPayloads (new_events (setLoading True initial)
       (snd (getSignature agent_rejects cosmoshub ''cosmos1xyz'' (setLoading True initial)))) \<and>
   signedPayloads (new_events initial (snd (getSignature all_ok cosmoshub ''cosmos1abc'' initial))) =
     [''eyJ0aXRsZSI6IktlcGxyIExvZ2luIHRvIENvc21vcyBIdWIiLCJkZXNjcmlwdGlvbiI6IlNpZ24gdGhpcyBubyBmZWUgdHJhbnNhY3Rpb24gdG8gbG9naW4gd2l0aCB5b3VyIEtlcGxyIHdhbGxldCIsIm5vbmNlIjoiNyJ9'']"
proof -
  have n: "chainDisplayName cosmoshub = ''Cosmos Hub''"
    by (simp add: cosmoshub_def)
  have s1: "stargate_connect all_ok (nodeAddress cosmoshub) = Inr ()"
    and s2: "stargate_connect agent_rejects (nodeAddress cosmoshub) = Inr ()"
    by (simp_all add: all_ok_def agent_rejects_def)
  have a1: "client_getAccount all_ok (nodeAddress cosmoshub) ''cosmos1abc'' =
      Inr (Some \<lparr>account_address = ''cosmos1abc''\<rparr>)"
    and a2: "client_getAccount agent_rejects (nodeAddress cosmoshub) ''cosmos1xyz'' =
      Inr (Some \<lparr>account_address = ''cosmos1xyz''\<rparr>)"
    by (simp_all add: all_ok_def agent_rejects_def)
  have n1: "requestJson (nonce_endpoint all_ok (''/api/chain/'' @ chainId cosmoshub @ ''/nonce/'' @
      account_address \<lparr>account_address = ''cosmos1abc''\<rparr>)) = Inr ''7''"
    and n2: "requestJson (nonce_endpoint agent_rejects (''/api/chain/'' @ chainId cosmoshub @ ''/nonce/'' @
      account_address \<lparr>account_address = ''cosmos1xyz''\<rparr>)) = Inr ''7''"
    by (simp_all add: all_ok_def agent_rejects_def requestJson_def)
  have d: "toBase64 (Buffer_from (JSON_stringify (challenge ''Cosmos Hub'' ''7''))) =
      ''eyJ0aXRsZSI6IktlcGxyIExvZ2luIHRvIENvc21vcyBIdWIiLCJkZXNjcmlwdGlvbiI6IlNpZ24gdGhpcyBubyBmZWUgdHJhbnNhY3Rpb24gdG8gbG9naW4gd2l0aCB5b3VyIEtlcGxyIHdhbGxldCIsIm5vbmNlIjoiNyJ9''"
    using challengeData_example by (simp only: challengeData_def challengeBytes_def)
  note t = challenge_payload_deterministic [OF n n s1 s2 a1 a2 n1 n2,
        of initial "setLoading True initial"]
  have e: "signedPayloads (new_events initial (snd (getSignature all_ok cosmoshub ''cosmos1abc'' initial))) =
     signedPayloads (new_events (setLoading True initial)
       (snd (getSignature agent_rejects cosmoshub ''cosmos1xyz'' (setLoading True initial))))"
    using t by (rule conjunct1)
  have f: "signedPayloads (new_events initial (snd (getSignature all_ok cosmoshub ''cosmos1abc'' initial))) =
     [''eyJ0aXRsZSI6IktlcGxyIExvZ2luIHRvIENvc21vcyBIdWIiLCJkZXNjcmlwdGlvbiI6IlNpZ24gdGhpcyBubyBmZWUgdHJhbnNhY3Rpb24gdG8gbG9naW4gd2l0aCB5b3VyIEtlcGxyIHdhbGxldCIsIm5vbmNlIjoiNyJ9'']"
    using conjunct2 [OF t] d by (simp only:)
  show ?thesis
    by (intro conjI) (fact n n1 n2 e f)+
qed

subsection \<open>C6: a failed nonce request\<close>

text \<open>
  C6. In every invocation of \<^verbatim>\<open>getSignature\<close> that gets as far as the nonce request,
  if the request fails in transport or is answered with a status outside 200 to 299,
  the invocation fails with \<^verbatim>\<open>NetworkError\<close>, and all it has done is to connect to the
  node, look the account up and send the nonce request: no signature request is issued
  to the agent.
\<close>

theorem nonce_failure_stops_before_signing:
  assumes node: "stargate_connect env (nodeAddress chain) = Inr u"
      and acc: "client_getAccount env (nodeAddress chain) a = Inr (Some accountOnChain)"
      and url: "url = ''/api/chain/'' @ chainId chain @ ''/nonce/'' @ account_address accountOnChain"
      and fail: "nonce_endpoint env url = TransportFailure \<or>
                 (\<exists>status body. nonce_endpoint env url = HttpResponse status body \<and>
                    (status < 200 \<or> 300 \<le> status))"
  shows "fst (getSignature env chain a w) = Inl NetworkError \<and>
         new_events w (snd (getSignature env chain a w)) =
           [StargateConnect (nodeAddress chain), ClientGetAccount a, RequestJson url None] \<and>
         filter isSignRequest (new_events w (snd (getSignature env chain a w))) = []"
proof -
  have r: "requestJson (nonce_endpoint env url) = Inl NetworkError"
    using fail by (auto simp add: requestJson_def)
  have "fst (getSignature env chain a w) = Inl NetworkError \<and>
         new_events w (snd (getSignature env chain a w)) =
           [StargateConnect (nodeAddress chain), ClientGetAccount a, RequestJson url None]"
    using node acc r unfolding url
    by (simp add: getSignature_def Let_def emit_simps new_events_def)
  then show ?thesis by simp
qed

text \<open>Witness for C6: scenario B, the nonce request is answered with HTTP 500.\<close>

theorem nonce_failure_stops_before_signing_witness:
  "stargate_connect nonce_500 (nodeAddress cosmoshub) = Inr () \<and>
   client_getAccount nonce_500 (nodeAddress cosmoshub) ''cosmos1abc'' =
     Inr (Some \<lparr>account_address = ''cosmos1abc''\<rparr>) \<and>
   nonce_endpoint nonce_500 ''/api/chain/cosmoshub-4/nonce/cosmos1abc'' = HttpResponse 500 [] \<and>
   fst (getSignature nonce_500 cosmoshub ''cosmos1abc'' initial) = Inl NetworkError \<and>
   filter isSignRequest (new_events initial (snd (getSignature nonce_500 cosmoshub ''cosmos1abc'' initial)))
     = []"
proof -
  have h1: "stargate_connect nonce_500 (nodeAddress cosmoshub) = Inr ()"
    by (simp add: nonce_500_def all_ok_def)
  have h2: "client_getAccount nonce_500 (nodeAddress cosmoshub) ''cosmos1abc'' =
      Inr (Some \<lparr>account_address = ''cosmos1abc''\<rparr>)"
    by (simp add: nonce_500_def all_ok_def)
  have h3: "''/api/chain/cosmoshub-4/nonce/cosmos1abc'' =
      ''/api/chain/'' @ chainId cosmoshub @ ''/nonce/'' @
        account_address \<lparr>account_address = ''cosmos1abc''\<rparr>"
    by (simp add: cosmoshub_def)
  have r: "nonce_endpoint nonce_500 ''/api/chain/cosmoshub-4/nonce/cosmos1abc'' = HttpResponse 500 []"
    by (simp add: nonce_500_def)
  then have h4: "nonce_endpoint nonce_500 ''/api/chain/cosmoshub-4/nonce/cosmos1abc'' = TransportFailure \<or>
      (\<exists>status body. nonce_endpoint nonce_500 ''/api/chain/cosmoshub-4/nonce/cosmos1abc'' =
          HttpResponse status body \<and> (status < 200 \<or> 300 \<le> status))"
    by simp
  note t = nonce_failure_stops_before_signing [OF h1 h2 h3 h4, of initial]
  show ?thesis
    using t h1 h2 r by simp
qed

subsection \<open>C7: flipping the switch\<close>

text \<open>
  C7. With a result set held, the switch's handler sets \<^verbatim>\<open>showBelonged\<close> and does nothing
  else: the only event is that setter call, so no request goes to the node or the
  backend, and \<^verbatim>\<open>multisigs\<close>, \<^verbatim>\<open>walletInfo\<close> and \<^verbatim>\<open>loading\<close> keep their values. The
  sequence mapped to rows afterwards is \<^verbatim>\<open>belonged\<close> when the switch is on and
  \<^verbatim>\<open>created\<close> when it is off, and every render that completes shows exactly the rows of
  that sequence, in order.
\<close>

theorem toggle_flips_displayed_set_only:
  assumes "multisigs w = Some m"
  shows "displayedSet (showBelonged (onCheckedChange checked w)) m =
           (if checked then belonged m else created m) \<and>
         multisigs (onCheckedChange checked w) = multisigs w \<and>
         walletInfo (onCheckedChange checked w) = walletInfo w \<and>
         loading (onCheckedChange checked w) = loading w \<and>
         new_events w (onCheckedChange checked w) = [SetShowBelonged checked] \<and>
         filter isNetworkRequest (new_events w (onCheckedChange checked w)) = [] \<and>
         (\<forall>v. render JSON_parse chain (onCheckedChange checked w) = Inr v \<longrightarrow>
              mapRows JSON_parse chain (if checked then belonged m else created m) = Inr (rows v) \<and>
              map row_key (rows v) =
                map multisig_address (if checked then belonged m else created m)) \<and>
         (\<forall>v. render JSON_parse chain w = Inr v \<longrightarrow>
              mapRows JSON_parse chain (if showBelonged w then belonged m else created m) =
                Inr (rows v))"
proof -
  define w' where "w' = onCheckedChange checked w"
  have before: "\<forall>v. render JSON_parse chain w = Inr v \<longrightarrow>
              mapRows JSON_parse chain (if showBelonged w then belonged m else created m) =
                Inr (rows v)"
    using render_Inr_rows(1) [OF assms] by (simp add: displayedSet_def)
  have m: "multisigs w' = Some m" and s: "showBelonged w' = checked"
    using assms by (simp_all add: w'_def onCheckedChange_def setter_simps)
  have d: "displayedSet checked m = (if checked then belonged m else created m)"
    by (simp add: displayedSet_def)
  have r: "\<forall>v. render JSON_parse chain w' = Inr v \<longrightarrow>
              mapRows JSON_parse chain (if checked then belonged m else created m) = Inr (rows v) \<and>
              map row_key (rows v) =
                map multisig_address (if checked then belonged m else created m)"
  proof (intro allI impI)
    fix v assume v: "render JSON_parse chain w' = Inr v"
    have "mapRows JSON_parse chain (displayedSet checked m) = Inr (rows v)"
      using render_Inr_rows(1) [OF m v] s by simp
    then show "mapRows JSON_parse chain (if checked then belonged m else created m) = Inr (rows v) \<and>
              map row_key (rows v) =
                map multisig_address (if checked then belonged m else created m)"
      using mapRows_Inr d by fastforce
  qed
  have rest: "multisigs w' = multisigs w \<and> walletInfo w' = walletInfo w \<and> loading w' = loading w \<and>
      new_events w w' = [SetShowBelonged checked] \<and> filter isNetworkRequest (new_events w w') = []"
    by (simp add: w'_def onCheckedChange_def setter_simps new_events_def)
  show ?thesis using s d r rest before unfolding w'_def by simp
qed

text \<open>
  Witness for C7: scenario D after a completed connect. The render shows the two created
  entries; after the switch is turned on it shows the five belonged entries, and the
  held result set is the same.
\<close>

theorem toggle_flips_displayed_set_only_witness:
  "multisigs (connectWallet all_ok cosmoshub initial) = Some scenario_D \<and>
   multisigs (onCheckedChange True (connectWallet all_ok cosmoshub initial)) = Some scenario_D \<and>
   new_events (connectWallet all_ok cosmoshub initial)
     (onCheckedChange True (connectWallet all_ok cosmoshub initial)) = [SetShowBelonged True] \<and>
   (\<exists>v. render parse_1of1 cosmoshub (connectWallet all_ok cosmoshub initial) = Inr v \<and>
        map row_key (rows v) = [''cosmos1m1'', ''cosmos1m2'']) \<and>
   (\<exists>v. render parse_1of1 cosmoshub (onCheckedChange True (connectWallet all_ok cosmoshub initial)) = Inr v \<and>
        map row_key (rows v) =
          [''cosmos1m1'', ''cosmos1m2'', ''cosmos1m3'', ''cosmos1m4'', ''cosmos1m5''])"
proof -
  define w where "w = connectWallet all_ok cosmoshub initial"
  have h: "multisigs w = Some scenario_D"
    by (simp add: w_def connectWallet_def connectWallet_try_def fetchMultisigs_def
          fetchMultisigs_try_def getSignature_def all_ok_def cosmoshub_def requestJson_def
          emit_simps setter_simps Let_def)
  have sb: "showBelonged w = False"
    by (simp add: w_def connectWallet_def connectWallet_try_def fetchMultisigs_def
          fetchMultisigs_try_def getSignature_def all_ok_def cosmoshub_def requestJson_def
          initial_def emit_simps setter_simps Let_def)
  have p: "parse_1of1 pubkeyJSON_1of1 = Some pubkey_1of1"
    by (simp add: parse_1of1_def)
  note t = toggle_flips_displayed_set_only [OF h, of _ parse_1of1 cosmoshub]
  have m': "multisigs (onCheckedChange True w) = Some scenario_D"
    using t [of True] h by simp
  have ev: "new_events w (onCheckedChange True w) = [SetShowBelonged True]"
    using t [of True] by simp
  obtain v1 where v1: "render parse_1of1 cosmoshub (onCheckedChange True w) = Inr v1"
  proof (cases "render parse_1of1 cosmoshub (onCheckedChange True w)")
    case (Inl e)
    then have "e = SyntaxError"
      using m' by (auto simp add: render_def Let_def split: if_splits sum.splits dest: mapRows_Inl)
    then have "\<exists>x \<in> set (displayedSet (showBelonged (onCheckedChange True w)) scenario_D).
        parse_1of1 (pubkeyJSON x) = None"
      using Inl render_Inl_iff [OF m', of parse_1of1 cosmoshub] by simp
    then have False
      using p by (auto simp add: onCheckedChange_def setter_simps displayedSet_def scenario_D_def
            good_entry_def)
    then show ?thesis ..
  next
    case (Inr v)
    then show ?thesis using that by simp
  qed
  obtain v0 where v0: "render parse_1of1 cosmoshub w = Inr v0"
  proof (cases "render parse_1of1 cosmoshub w")
    case (Inl e)
    then have "e = SyntaxError"
      using h by (auto simp add: render_def Let_def split: if_splits sum.splits dest: mapRows_Inl)
    then have "\<exists>x \<in> set (displayedSet (showBelonged w) scenario_D).
        parse_1of1 (pubkeyJSON x) = None"
      using Inl render_Inl_iff [OF h, of parse_1of1 cosmoshub] by simp
    then have False
      using p sb by (auto simp add: displayedSet_def scenario_D_def good_entry_def)
    then show ?thesis ..
  next
    case (Inr v)
    then show ?thesis using that by simp
  qed
  have k1: "map row_key (rows v1) = [''cosmos1m1'', ''cosmos1m2'', ''cosmos1m3'', ''cosmos1m4'', ''cosmos1m5'']"
    using t [of True] v1 by (simp add: scenario_D_def good_entry_def)
  have k0: "map row_key (rows v0) = [''cosmos1m1'', ''cosmos1m2'']"
    using render_Inr_rows(1) [OF h v0] mapRows_Inr [of parse_1of1 cosmoshub "created scenario_D" "rows v0"] sb
    by (simp add: displayedSet_def scenario_D_def good_entry_def)
  show ?thesis
    using h m' ev k0 k1 v0 v1 unfolding w_def by simp
qed

subsection \<open>C8: the account-change listener\<close>

text \<open>
  C8. Over any sequence of renders, whatever the callback identity and the identity
  held at each of them: after each commit the window holds the current callback as
  listener if the effect's test \<^verbatim>\<open>walletInfo?.address\<close> is truthy and no listener of
  the component otherwise, which for an identity whose address is not the empty string
  (as no bech32 address is) means: exactly if an identity is held. After the component
  is discarded the window holds none. Every call of \<^verbatim>\<open>addEventListener\<close> is paired with
  a call of \<^verbatim>\<open>removeEventListener\<close> for the same callback, the one listener still
  registered excepted while the component is mounted.
\<close>

theorem listener_held_with_identity:
  "listeners (lifecycle renders) =
     (if renders = [] \<or> falsy (optional_address (snd (last renders))) then []
      else [fst (last renders)]) \<and>
   ((\<forall>i. snd (last renders) = Some i \<longrightarrow> address i \<noteq> []) \<longrightarrow>
      listeners (lifecycle renders) =
        (if renders = [] then []
         else case snd (last renders) of None \<Rightarrow> [] | Some i \<Rightarrow> [fst (last renders)])) \<and>
   listeners (unmount (lifecycle renders)) = [] \<and>
   (\<forall>c. count_list (window_calls (unmount (lifecycle renders))) (AddEventListener accountChangeKey c) =
        count_list (window_calls (unmount (lifecycle renders))) (RemoveEventListener accountChangeKey c)) \<and>
   (\<forall>c. count_list (window_calls (lifecycle renders)) (AddEventListener accountChangeKey c) =
        count_list (window_calls (lifecycle renders)) (RemoveEventListener accountChangeKey c) +
        (if c \<in> set (listeners (lifecycle renders)) then 1 else 0))"
proof -
  define h where "h = lifecycle renders"
  have inv: "paired h" "coherent h"
    "deps h = (if renders = [] then None
               else Some (fst (last renders), optional_address (snd (last renders))))"
    using lifecycle_inv [of renders] by (simp_all add: h_def)
  have 1: "listeners h =
     (if renders = [] \<or> falsy (optional_address (snd (last renders))) then []
      else [fst (last renders)])"
  proof (cases "renders = []")
    case True
    then show ?thesis using inv by (simp add: paired_def coherent_def)
  next
    case False
    then show ?thesis using inv by (simp add: paired_def coherent_def)
  qed
  have 2: "(\<forall>i. snd (last renders) = Some i \<longrightarrow> address i \<noteq> []) \<longrightarrow>
      listeners h =
        (if renders = [] then []
         else case snd (last renders) of None \<Rightarrow> [] | Some i \<Rightarrow> [fst (last renders)])"
    unfolding 1 by (auto simp add: falsy_def optional_address_def split: option.splits)
  have u: "paired (runCleanup h)" "cleanup (runCleanup h) = None"
    using paired_runCleanup [OF inv(1)] by simp_all
  have 3: "listeners (unmount h) = []"
    using u by (simp add: unmount_def paired_def)
  have 4: "\<forall>c. count_list (window_calls (unmount h)) (AddEventListener accountChangeKey c) =
              count_list (window_calls (unmount h)) (RemoveEventListener accountChangeKey c)"
    using u by (simp add: unmount_def paired_def)
  have 5: "\<forall>c. count_list (window_calls h) (AddEventListener accountChangeKey c) =
              count_list (window_calls h) (RemoveEventListener accountChangeKey c) +
              (if c \<in> set (listeners h) then 1 else 0)"
    using inv(1) by (auto simp add: paired_def split: option.splits)
  show ?thesis using 1 2 3 4 5 unfolding h_def by blast
qed

text \<open>
  Witness for C8: a first render without identity, then the identity of the agent's key
  arrives, then the callback is replaced. The new callback is the one listener; after
  the component is discarded there is none, and the calls were add, remove, add,
  remove.
\<close>

theorem listener_held_with_identity_witness:
  "listeners (lifecycle [(1::nat, None),
      (1, Some \<lparr>address = ''cosmos1abc'', pubKey = ''AQID''\<rparr>),
      (2, Some \<lparr>address = ''cosmos1abc'', pubKey = ''AQID''\<rparr>)]) = [2] \<and>
   listeners (lifecycle [(1::nat, None)]) = [] \<and>
   listeners (unmount (lifecycle [(1::nat, None),
      (1, Some \<lparr>address = ''cosmos1abc'', pubKey = ''AQID''\<rparr>),
      (2, Some \<lparr>address = ''cosmos1abc'', pubKey = ''AQID''\<rparr>)])) = [] \<and>
   window_calls (unmount (lifecycle [(1::nat, None),
      (1, Some \<lparr>address = ''cosmos1abc'', pubKey = ''AQID''\<rparr>),
      (2, Some \<lparr>address = ''cosmos1abc'', pubKey = ''AQID''\<rparr>)])) =
     [AddEventListener ''keplr_keystorechange'' 1, RemoveEventListener ''keplr_keystorechange'' 1,
      AddEventListener ''keplr_keystorechange'' 2, RemoveEventListener ''keplr_keystorechange'' 2]"
proof -
  define i where "i = \<lparr>address = ''cosmos1abc'', pubKey = ''AQID''\<rparr>"
  have a3: "\<forall>j. snd (last [(1::nat, None), (1, Some i), (2, Some i)]) = Some j \<longrightarrow> address j \<noteq> []"
    by (simp add: i_def)
  have a1: "\<forall>j. snd (last [(1::nat, None :: WalletInfo option)]) = Some j \<longrightarrow> address j \<noteq> []"
    by simp
  note t3 = listener_held_with_identity [of "[(1::nat, None), (1, Some i), (2, Some i)]"]
  note t1 = listener_held_with_identity [of "[(1::nat, None :: WalletInfo option)]"]
  have l3: "listeners (lifecycle [(1::nat, None), (1, Some i), (2, Some i)]) = [2]"
    using conjunct1 [OF conjunct2 [OF t3]] a3 by simp
  have l1: "listeners (lifecycle [(1::nat, None :: WalletInfo option)]) = []"
    using conjunct1 [OF conjunct2 [OF t1]] a1 by simp
  have u3: "listeners (unmount (lifecycle [(1::nat, None), (1, Some i), (2, Some i)])) = []"
    using t3 by simp
  have c3: "window_calls (unmount (lifecycle [(1::nat, None), (1, Some i), (2, Some i)])) =
     [AddEventListener ''keplr_keystorechange'' 1, RemoveEventListener ''keplr_keystorechange'' 1,
      AddEventListener ''keplr_keystorechange'' 2, RemoveEventListener ''keplr_keystorechange'' 2]"
    by (simp add: lifecycle_def commit_def layoutEffect_def runCleanup_def unmount_def mounted_def
          addEventListener_def removeEventListener_def optional_address_def falsy_def
          accountChangeKey_def i_def Let_def)
  show ?thesis
    using l3 l1 u3 c3 unfolding i_def by simp
qed

subsection \<open>C9: the loading flag after a connect\<close>

text \<open>
  C9. Whatever the collaborators do (the agent cannot be enabled, yields no key, the
  sign step or the list request fails, or all succeed), \<^verbatim>\<open>loading\<close> is false when
  \<^verbatim>\<open>connectWallet\<close> has run, and the last thing it did was \<^verbatim>\<open>setLoading(false)\<close>.
\<close>

theorem connect_always_clears_loading:
  "\<not> loading (connectWallet env chain w) \<and>
   last (trace (connectWallet env chain w)) = SetLoading False"
  by (simp add: connectWallet_def setter_simps)

text \<open>
  Witness for C9: the agent refuses to be enabled while \<^verbatim>\<open>loading\<close> happens to be true;
  the attempt reports the connect error and ends with \<^verbatim>\<open>loading\<close> false.
\<close>

theorem connect_always_clears_loading_witness:
  "loading (initial\<lparr>loading := True\<rparr>) \<and>
   \<not> loading (connectWallet (all_ok\<lparr>keplr_enable := (\<lambda>_. Inl (AgentError ''Request rejected''))\<rparr>)
       cosmoshub (initial\<lparr>loading := True\<rparr>)) \<and>
   trace (connectWallet (all_ok\<lparr>keplr_enable := (\<lambda>_. Inl (AgentError ''Request rejected''))\<rparr>)
       cosmoshub initial) =
     [SetLoading True, KeplrEnable ''cosmoshub-4'',
      ConsoleError ''Failed to connect wallet'' (AgentError ''Request rejected''),
      ToastError ''Failed to connect wallet'' (Some (AgentError ''Request rejected'')),
      SetLoading False]"
proof -
  have a: "loading (initial\<lparr>loading := True\<rparr>)"
    by simp
  have b: "trace (connectWallet (all_ok\<lparr>keplr_enable := (\<lambda>_. Inl (AgentError ''Request rejected''))\<rparr>)
       cosmoshub initial) =
     [SetLoading True, KeplrEnable ''cosmoshub-4'',
      ConsoleError ''Failed to connect wallet'' (AgentError ''Request rejected''),
      ToastError ''Failed to connect wallet'' (Some (AgentError ''Request rejected'')),
      SetLoading False]"
    by (simp add: connectWallet_def connectWallet_try_def connectWallet_catch_def all_ok_def
          cosmoshub_def initial_def emit_simps setter_simps Let_def)
  show ?thesis
    using connect_always_clears_loading
            [of "all_ok\<lparr>keplr_enable := (\<lambda>_. Inl (AgentError ''Request rejected''))\<rparr>"
                cosmoshub "initial\<lparr>loading := True\<rparr>"] a b
    by simp
qed

subsection \<open>C10: a failed fetch leaves the result set alone\<close>

text \<open>
  C10. Whenever the body of \<^verbatim>\<open>fetchMultisigs\<close> throws, at whatever step, the handler
  logs the error and raises the toast ``Failed to fetch multisigs'', these are the last
  two events, \<^verbatim>\<open>setMultisigs\<close> is not called anywhere in the invocation, and the
  \<^verbatim>\<open>multisigs\<close> state has the value it had before.
\<close>

theorem fetch_error_keeps_multisigs:
  assumes "fst (fetchMultisigs_try env chain a w) = Inl e"
  shows "multisigs (fetchMultisigs env chain a w) = multisigs w \<and>
         (\<exists>es. trace (fetchMultisigs env chain a w) =
                  trace w @ es @ [ConsoleError ''Failed to fetch multisigs:'' e,
                    ToastError ''Failed to fetch multisigs'' (if instanceof_Error e then Some e else None)] \<and>
               (\<forall>x \<in> set es. \<not> isSetMultisigs x)) \<and>
         filter isSetMultisigs (new_events w (fetchMultisigs env chain a w)) = []"
proof -
  obtain w1 where t: "fetchMultisigs_try env chain a w = (Inl e, w1)"
    using assms by (cases "fetchMultisigs_try env chain a w") simp
  have m: "multisigs w1 = multisigs w"
    using fetchMultisigs_try_fail_frame(1) [OF assms] t by simp
  obtain es where es: "trace w1 = trace w @ es"
      "\<forall>x \<in> set es. \<not> isSetMultisigs x \<and> \<not> isSetWalletInfo x \<and> \<not> isToastError x"
    using fetchMultisigs_try_fail_frame(4) [OF assms] t by auto
  have f: "fetchMultisigs env chain a w = fetchMultisigs_catch e w1"
    using t by (simp add: fetchMultisigs_def)
  have tr: "trace (fetchMultisigs env chain a w) =
      trace w @ es @ [ConsoleError ''Failed to fetch multisigs:'' e,
        ToastError ''Failed to fetch multisigs'' (if instanceof_Error e then Some e else None)]"
    using f es(1) by (simp add: fetchMultisigs_catch_def emit_simps)
  have "multisigs (fetchMultisigs env chain a w) = multisigs w"
    using f m by (simp add: fetchMultisigs_catch_def emit_simps)
  moreover have "filter isSetMultisigs (new_events w (fetchMultisigs env chain a w)) = []"
    using tr es(2) by (simp add: new_events_def)
  ultimately show ?thesis using tr es(2) by blast
qed

text \<open>
  Witness for C10: scenario D is held and the user declines the signature request of a
  later fetch; scenario D is still held.
\<close>

theorem fetch_error_keeps_multisigs_witness:
  "fst (fetchMultisigs_try agent_rejects cosmoshub ''cosmos1abc''
          (initial\<lparr>multisigs := Some scenario_D\<rparr>)) = Inl (AgentError ''Request rejected'') \<and>
   multisigs (fetchMultisigs agent_rejects cosmoshub ''cosmos1abc''
          (initial\<lparr>multisigs := Some scenario_D\<rparr>)) = Some scenario_D \<and>
   filter isSetMultisigs (new_events (initial\<lparr>multisigs := Some scenario_D\<rparr>)
      (fetchMultisigs agent_rejects cosmoshub ''cosmos1abc''
          (initial\<lparr>multisigs := Some scenario_D\<rparr>))) = []"
proof -
  have h: "fst (fetchMultisigs_try agent_rejects cosmoshub ''cosmos1abc''
          (initial\<lparr>multisigs := Some scenario_D\<rparr>)) = Inl (AgentError ''Request rejected'')"
    by (simp add: fetchMultisigs_try_def getSignature_def agent_rejects_def all_ok_def
          requestJson_def Let_def)
  show ?thesis
    using fetch_error_keeps_multisigs [OF h] h by simp
qed

end
